theory Spec2Isabelle
  imports Complex_Main
begin

section \<open>PAR/REC headers (nibabel/parrec.py)\<close>

text \<open>
  The module reads the textual PAR header of a Philips PAR/REC image into a dictionary of
  "general information" and a structured array of per-slice image definitions, and
  derives the data shape, the zooms, the intensity scaling and the affine from them.
  Floating-point values are idealised as real numbers throughout.
\<close>

subsection \<open>Errors\<close>

text \<open>
  \<open>PARRECError\<close> is the module's own exception; its payload records which \<open>raise\<close>
  statement produced it. The other constructors are the Python built-in exceptions that
  the modelled code can raise (a missing dictionary key, an index out of range, an
  unknown scaling method, the failed \<open>assert\<close> of \<open>get_affine\<close>), and the range error
  of the volume-completeness primitive.
\<close>

datatype parrec_msg =
    Varying string
  | HeaderInconsistency nat int
  | UnknownSliceOrientation string
  | FromAir
  | NonPARREC

datatype error =
    PARRECError parrec_msg
  | KeyError string
  | IndexError
  | ValueError
  | TypeError
  | AssertionError
  | OutOfRangeSliceNumber

definition bindE :: "error + 'a \<Rightarrow> ('a \<Rightarrow> error + 'b) \<Rightarrow> error + 'b" where
  "bindE m f = (case m of Inl e \<Rightarrow> Inl e | Inr x \<Rightarrow> f x)"

subsection \<open>The image definitions\<close>

text \<open>
  \<open>image_defs\<close> is a numpy structured array with the fixed dtype \<open>image_def_dtd\<close>:
  one row per slice. A row is a record; it holds the fields that the header methods read,
  under the names of \<open>image_def_dtd\<close> (blanks written as underscores). A field declared
  with a shape holds a list.
\<close>

record image_def =
  slice_number :: int
  dynamic_scan_number :: int
  image_pixel_size :: int
  recon_resolution :: "int list"
  rescale_intercept :: real
  rescale_slope :: real
  scale_slope :: real
  image_angulation :: "real list"
  slice_thickness :: real
  slice_gap :: real
  slice_orientation :: int
  pixel_spacing :: "real list"

text \<open>
  \<open>image_defs[name]\<close> is a column: one-dimensional for a scalar field, two-dimensional
  (rows by elements) for a field with a shape.
\<close>

datatype 'a column = Scalars "'a list" | Arrays "'a list list"

text \<open>\<open>np.unique\<close>: the sorted distinct values.\<close>

definition unique :: "'a::linorder list \<Rightarrow> 'a list" where
  "unique xs = sort (remdups xs)"

text \<open>
  \<open>_get_unique_image_prop\<close> (a leading underscore of a Python name is written \<open>u_\<close>).
  For a two-dimensional column \<open>len(prop.shape)\<close> is 2, so the comprehension takes
  \<open>np.unique(prop[0])\<close> and \<open>np.unique(prop[1])\<close>: \<open>prop[i]\<close> is row \<open>i\<close> of the
  column, and raises IndexError when the table has no such row. The result holds the
  first element of every member of \<open>uprops\<close>; each has length 1 when the product of the
  lengths is 1.
\<close>

definition u_get_unique_image_prop :: "string \<Rightarrow> 'a::linorder column \<Rightarrow> error + 'a list" where
  "u_get_unique_image_prop name prop =
     bindE (case prop of
              Arrays rows \<Rightarrow>
                if list_all (\<lambda>i. i < length rows) [0, 1]
                then Inr (map (\<lambda>i. unique (rows ! i)) [0, 1])
                else Inl IndexError
            | Scalars xs \<Rightarrow> Inr [unique xs])
       (\<lambda>uprops. if prod_list (map length uprops) \<noteq> 1
                  then Inl (PARRECError (Varying name))
                  else Inr (map hd uprops))"

definition get_voxel_size :: "image_def list \<Rightarrow> error + real list" where
  "get_voxel_size defs =
     bindE (u_get_unique_image_prop ''slice thickness'' (Scalars (map slice_thickness defs)))
       (\<lambda>st.
     bindE (u_get_unique_image_prop ''pixel spacing'' (Arrays (map pixel_spacing defs)))
       (\<lambda>voxsize_inplane.
     Inr [voxsize_inplane ! 0, voxsize_inplane ! 1, st ! 0]))"

subsection \<open>The general information\<close>

text \<open>
  \<open>general_info\<close> is a dictionary from the short names of \<open>_hdr_key_dict\<close> to values
  of the declared dtype: an int, a float, a string, or a float array, which for the
  entries read here (angulation, fov, off_center) has the declared shape (3,). Reading a
  missing key raises KeyError; a value of another kind than the code expects is
  reported as TypeError.
\<close>

datatype vec3 = Vec3 real real real

datatype gval = IntV int | FloatV real | Vec3V vec3 | StrV string

type_synonym info_dict = "string \<Rightarrow> gval option"

definition int_item :: "info_dict \<Rightarrow> string \<Rightarrow> error + int" where
  "int_item gi k = (case gi k of None \<Rightarrow> Inl (KeyError k) | Some (IntV n) \<Rightarrow> Inr n
                    | Some _ \<Rightarrow> Inl TypeError)"

definition float_item :: "info_dict \<Rightarrow> string \<Rightarrow> error + real" where
  "float_item gi k = (case gi k of None \<Rightarrow> Inl (KeyError k) | Some (FloatV x) \<Rightarrow> Inr x
                      | Some _ \<Rightarrow> Inl TypeError)"

definition vec3_item :: "info_dict \<Rightarrow> string \<Rightarrow> error + vec3" where
  "vec3_item gi k = (case gi k of None \<Rightarrow> Inl (KeyError k) | Some (Vec3V v) \<Rightarrow> Inr v
                     | Some _ \<Rightarrow> Inl TypeError)"

definition get_ndim :: "info_dict \<Rightarrow> error + nat" where
  "get_ndim gi =
     bindE (int_item gi ''max_dynamics'') (\<lambda>max_dynamics.
       if max_dynamics > 1 then Inr 4
       else bindE (int_item gi ''max_gradient_orient'') (\<lambda>max_gradient_orient.
              if max_gradient_orient > 1 then Inr 4 else Inr 3))"

text \<open>
  \<open>_get_zooms\<close>: \<open>np.ones(ndim)\<close> with the voxel size in the first three places, the
  slice gap added to the third, and the repetition time in seconds in the fourth when
  there is one and the series is dynamic.
\<close>

definition u_get_zooms :: "info_dict \<Rightarrow> image_def list \<Rightarrow> error + real list" where
  "u_get_zooms gi defs =
     bindE (u_get_unique_image_prop ''slice gap'' (Scalars (map slice_gap defs))) (\<lambda>sg.
     bindE (get_ndim gi) (\<lambda>ndim.
     bindE (get_voxel_size defs) (\<lambda>vs.
       let zooms = vs @ replicate (ndim - 3) 1;
           zooms = zooms[2 := zooms ! 2 + sg ! 0]
       in if length zooms > 3
          then bindE (int_item gi ''max_dynamics'') (\<lambda>max_dynamics.
                 if max_dynamics > 1
                 then bindE (float_item gi ''repetition_time'') (\<lambda>tr.
                        Inr (zooms[3 := tr / 1000]))
                 else Inr zooms)
          else Inr zooms)))"

definition get_data_shape_in_file :: "info_dict \<Rightarrow> image_def list \<Rightarrow> error + int list" where
  "get_data_shape_in_file gi defs =
     (let ndynamics = length (unique (map dynamic_scan_number defs)) in
      bindE (int_item gi ''max_diffusion_values'') (\<lambda>max_diffusion_values.
      bindE (int_item gi ''max_gradient_orient'') (\<lambda>max_gradient_orient.
        let ndtivolumes = (max_diffusion_values - 1) * max_gradient_orient;
            nslices = length (unique (map slice_number defs))
        in bindE (int_item gi ''max_slices'') (\<lambda>max_slices.
             if int nslices \<noteq> max_slices
             then Inl (PARRECError (HeaderInconsistency nslices max_slices))
             else bindE (u_get_unique_image_prop ''recon resolution''
                           (Arrays (map recon_resolution defs))) (\<lambda>inplane_shape.
                    if ndynamics > 1 then Inr (inplane_shape @ [int nslices, int ndynamics])
                    else if ndtivolumes > 1 then Inr (inplane_shape @ [int nslices, ndtivolumes])
                    else Inr (inplane_shape @ [int nslices]))))))"

text \<open>
  \<open>get_data_scaling\<close>. The three queries run before the method is looked at. The
  arithmetic is numpy's, element by element on the one-element arrays. (A division by
  zero raises nothing in numpy and yields inf or nan; over the reals the quotient is 0.)
\<close>

definition get_data_scaling :: "image_def list \<Rightarrow> string \<Rightarrow> error + (real list \<times> real list)" where
  "get_data_scaling defs method =
     bindE (u_get_unique_image_prop ''scale slope'' (Scalars (map scale_slope defs))) (\<lambda>ss.
     bindE (u_get_unique_image_prop ''rescale slope'' (Scalars (map rescale_slope defs))) (\<lambda>rs.
     bindE (u_get_unique_image_prop ''rescale intercept'' (Scalars (map rescale_intercept defs)))
       (\<lambda>ri.
       if method = ''dv'' then Inr (rs, ri)
       else if method = ''fp''
       then Inr (map (\<lambda>s. 1 / s) ss, map2 (/) ri (map2 (*) rs ss))
       else Inl ValueError)))"

text \<open>
  \<open>slice_orientation_codes.label[code]\<close>: the label column of the recoder, by code; a
  code outside the table raises KeyError.
\<close>

definition slice_orientation_codes_label :: "int \<Rightarrow> error + string" where
  "slice_orientation_codes_label code =
     (if code = 1 then Inr ''transversal''
      else if code = 2 then Inr ''sagital''
      else if code = 3 then Inr ''coronal''
      else Inl (KeyError ''slice orientation code''))"

subsection \<open>The data type of the pixels\<close>

text \<open>
  The constructor looks \<open>'int' + str(bits)\<close> up in numpy's \<open>typeDict\<close> (the dictionary
  of scalar type names of the numpy versions that have it), where \<open>bits\<close> is the unique
  image pixel size. \<open>str\<close> of an integer is its decimal numeral, so the
  only keys of numpy's dictionary that the lookup can reach are \<open>int8\<close>, \<open>int16\<close>,
  \<open>int32\<close>, \<open>int64\<close> and \<open>int0\<close> (the pointer-sized integer); any other key raises
  KeyError.
\<close>

datatype dtype = Int8 | Int16 | Int32 | Int64

definition typeDict :: "string \<Rightarrow> dtype option" where
  "typeDict = map_of [(''int8'', Int8), (''int16'', Int16), (''int32'', Int32),
                      (''int64'', Int64), (''int0'', Int64)]"

fun str_nat :: "nat \<Rightarrow> string" where
  "str_nat n = (if n < 10 then [''0123456789'' ! n]
                else str_nat (n div 10) @ [''0123456789'' ! (n mod 10)])"

declare str_nat.simps [simp del]

definition str :: "int \<Rightarrow> string" where
  "str i = (if i < 0 then CHR ''-'' # str_nat (nat (- i)) else str_nat (nat i))"

subsection \<open>Header objects\<close>

text \<open>
  The base class \<open>Header\<close> (nibabel/spatialimages.py) is not among the sources. Its
  constructor receives the data type, the shape and the zooms; it is a parameter
  \<open>Header_init\<close> of the model, which may reject its arguments and otherwise yields the
  base part of the object. \<open>get_zooms\<close> of the base class reads the zooms of that part.
\<close>

record base_header =
  data_dtype :: dtype
  shape :: "int list"
  zooms :: "real list"

type_synonym header_init = "dtype \<Rightarrow> int list \<Rightarrow> real list \<Rightarrow> error + base_header"

text \<open>
  The arguments that \<open>__init__\<close> computes for the base constructor, in the order of the
  source: the dtype, then the shape, then the zooms.
\<close>

definition init_args :: "info_dict \<Rightarrow> image_def list \<Rightarrow> error + (dtype \<times> int list \<times> real list)" where
  "init_args gi defs =
     bindE (u_get_unique_image_prop ''image pixel size'' (Scalars (map image_pixel_size defs)))
       (\<lambda>bits.
     bindE (case typeDict (''int'' @ str (bits ! 0)) of
              None \<Rightarrow> Inl (KeyError (''int'' @ str (bits ! 0)))
            | Some dt \<Rightarrow> Inr dt) (\<lambda>dt.
     bindE (get_data_shape_in_file gi defs) (\<lambda>sh.
     bindE (u_get_zooms gi defs) (\<lambda>zs.
     Inr (dt, sh, zs)))))"

text \<open>
  Objects live in a heap, a list of objects addressed by position; a new object goes to
  the end. A header object holds references to its dictionary and to its table (the
  constructor stores the arguments it is given, it does not copy them), the cached
  orientation label, the default scaling and the base part.
\<close>

type_synonym addr = nat

record header =
  general_info :: addr
  image_defs :: addr
  u_slice_orientation :: "string option"
  default_scaling :: string
  base :: base_header

datatype obj =
    DictObj info_dict
  | ArrayObj "image_def list"
  | HeaderObj header
  | OtherObj

type_synonym heap = "obj list"

definition deref :: "heap \<Rightarrow> addr \<Rightarrow> obj option" where
  "deref h a = (if a < length h then Some (h ! a) else None)"

definition new :: "heap \<Rightarrow> obj \<Rightarrow> addr \<times> heap" where
  "new h ob = (length h, h @ [ob])"

definition store :: "heap \<Rightarrow> addr \<Rightarrow> obj \<Rightarrow> heap" where
  "store h a ob = h[a := ob]"

text \<open>
  \<open>PARRECHeader(info, image_defs, default_scaling)\<close>. A reference that is not a
  dictionary or not a table is reported as TypeError. When \<open>__init__\<close> raises, no
  object is returned.
\<close>

definition PARRECHeader ::
    "header_init \<Rightarrow> heap \<Rightarrow> addr \<Rightarrow> addr \<Rightarrow> string \<Rightarrow> error + (addr \<times> heap)" where
  "PARRECHeader Header_init h info defs_ref scaling =
     (case (deref h info, deref h defs_ref) of
        (Some (DictObj gi), Some (ArrayObj defs)) \<Rightarrow>
          bindE (init_args gi defs) (\<lambda>(dt, sh, zs).
          bindE (Header_init dt sh zs) (\<lambda>b.
          Inr (new h (HeaderObj \<lparr>general_info = info, image_defs = defs_ref,
                                  u_slice_orientation = None, default_scaling = scaling,
                                  base = b\<rparr>))))
      | _ \<Rightarrow> Inl TypeError)"



text \<open>
  \<open>get_slice_orientation\<close> fills \<open>_slice_orientation\<close> on the first successful query and
  returns the stored label from then on. A method returns its result and the heap it
  leaves behind.
\<close>

definition get_slice_orientation :: "heap \<Rightarrow> addr \<Rightarrow> (error + string) \<times> heap" where
  "get_slice_orientation h self =
     (case deref h self of
        Some (HeaderObj hdr) \<Rightarrow>
          (case u_slice_orientation hdr of
             Some label \<Rightarrow> (Inr label, h)
           | None \<Rightarrow>
               (case deref h (image_defs hdr) of
                  Some (ArrayObj defs) \<Rightarrow>
                    (case bindE (u_get_unique_image_prop ''slice orientation''
                                   (Scalars (map slice_orientation defs)))
                            (\<lambda>codes. slice_orientation_codes_label (codes ! 0)) of
                       Inl e \<Rightarrow> (Inl e, h)
                     | Inr label \<Rightarrow>
                         (Inr label,
                          store h self (HeaderObj (hdr\<lparr>u_slice_orientation := Some label\<rparr>))))
                | _ \<Rightarrow> (Inl TypeError, h)))
      | _ \<Rightarrow> (Inl TypeError, h))"

subsection \<open>The affine\<close>

text \<open>A 3 by 3 matrix is its three rows; \<open>np.mat\<close> multiplies as matrices.\<close>

datatype mat3 = Mat3 vec3 vec3 vec3

fun dot3 :: "vec3 \<Rightarrow> vec3 \<Rightarrow> real" where
  "dot3 (Vec3 a b c) (Vec3 x y z) = a * x + b * y + c * z"

fun mat_vec :: "mat3 \<Rightarrow> vec3 \<Rightarrow> vec3" where
  "mat_vec (Mat3 r1 r2 r3) v = Vec3 (dot3 r1 v) (dot3 r2 v) (dot3 r3 v)"

fun columns :: "mat3 \<Rightarrow> mat3" where
  "columns (Mat3 (Vec3 a b c) (Vec3 d e f) (Vec3 g h i)) =
     Mat3 (Vec3 a d g) (Vec3 b e h) (Vec3 c f i)"

fun row_mat :: "vec3 \<Rightarrow> mat3 \<Rightarrow> vec3" where
  "row_mat r (Mat3 c1 c2 c3) = Vec3 (dot3 r c1) (dot3 r c2) (dot3 r c3)"

fun mat_mul :: "mat3 \<Rightarrow> mat3 \<Rightarrow> mat3" where
  "mat_mul (Mat3 r1 r2 r3) B =
     Mat3 (row_mat r1 (columns B)) (row_mat r2 (columns B)) (row_mat r3 (columns B))"

fun vec_add :: "vec3 \<Rightarrow> vec3 \<Rightarrow> vec3" where
  "vec_add (Vec3 a b c) (Vec3 x y z) = Vec3 (a + x) (b + y) (c + z)"

definition diag :: "real \<Rightarrow> real \<Rightarrow> real \<Rightarrow> mat3" where
  "diag x y z = Mat3 (Vec3 x 0 0) (Vec3 0 y 0) (Vec3 0 0 z)"

text \<open>
  \<open>np.eye(4)\<close> with the upper left block set to \<open>scaled\<close> and the upper part of the
  last column set to the offset: the affine, as its four rows.
\<close>

fun compose_aff :: "mat3 \<Rightarrow> vec3 \<Rightarrow> real list list" where
  "compose_aff (Mat3 (Vec3 a b c) (Vec3 d e f) (Vec3 g h i)) (Vec3 x y z) =
     [[a, b, c, x], [d, e, f, y], [g, h, i, z], [0, 0, 0, 1]]"

text \<open>
  The helper \<open>euler2mat\<close> (nibabel/eulerangles.py) is not among the sources: it is a
  parameter of the model, called as \<open>euler2mat z y x\<close>.
\<close>

type_synonym euler2mat = "real \<Rightarrow> real \<Rightarrow> real \<Rightarrow> mat3"

fun ang_rad :: "vec3 \<Rightarrow> vec3" where
  "ang_rad (Vec3 ap fh rl) =
     Vec3 (ap * pi / 180 * (- 1)) (fh * pi / 180 * (- 1)) (rl * pi / 180 * (- 1))"

definition rot_rl :: "real \<Rightarrow> mat3" where
  "rot_rl a = Mat3 (Vec3 1 0 0) (Vec3 0 (cos a) (- sin a)) (Vec3 0 (sin a) (cos a))"

definition rot_ap :: "real \<Rightarrow> mat3" where
  "rot_ap a = Mat3 (Vec3 (cos a) 0 (sin a)) (Vec3 0 1 0) (Vec3 (- sin a) 0 (cos a))"

definition rot_fh :: "real \<Rightarrow> mat3" where
  "rot_fh a = Mat3 (Vec3 (cos a) (- sin a) 0) (Vec3 (sin a) (cos a) 0) (Vec3 0 0 1)"

text \<open>
  Lines 372 to 406 of \<open>get_affine\<close>: the rotation. The \<open>assert\<close> compares the explicit
  product with the result of the helper and raises AssertionError when they differ.
\<close>

definition rotation :: "euler2mat \<Rightarrow> info_dict \<Rightarrow> error + mat3" where
  "rotation e2m gi =
     bindE (vec3_item gi ''angulation'') (\<lambda>angulation.
       case ang_rad angulation of
         Vec3 a0 a1 a2 \<Rightarrow>
           (let rot_r2agui = mat_mul (mat_mul (rot_rl a2) (rot_ap a0)) (rot_fh a1);
                rot_nibabel = e2m a1 a0 a2
            in if rot_r2agui \<noteq> rot_nibabel then Inl AssertionError else Inr rot_nibabel))"

text \<open>
  The branch on the slice orientation: the axis matrix and the permuted field of view
  (\<open>fov\<close>, \<open>fov[[2,0,1]]\<close>, \<open>fov[[2,1,0]]\<close>).
\<close>

definition recfg_data_axis :: "string \<Rightarrow> vec3 \<Rightarrow> error + (mat3 \<times> vec3)" where
  "recfg_data_axis orientation fov =
     (case fov of
        Vec3 f0 f1 f2 \<Rightarrow>
          if orientation = ''sagital''
          then Inr (Mat3 (Vec3 0 0 1) (Vec3 (- 1) 0 0) (Vec3 0 (- 1) 0), Vec3 f0 f1 f2)
          else if orientation = ''transversal''
          then Inr (Mat3 (Vec3 (- 1) 0 0) (Vec3 0 (- 1) 0) (Vec3 0 0 1), Vec3 f2 f0 f1)
          else if orientation = ''coronal''
          then Inr (Mat3 (Vec3 (- 1) 0 0) (Vec3 0 0 (- 1)) (Vec3 0 (- 1) 0), Vec3 f2 f1 f0)
          else Inl (PARRECError (UnknownSliceOrientation orientation)))"

text \<open>
  Lines 439 to 463: the rotated offset of the centre of the field of view, the scaling
  by the first three zooms, and for the origin \<open>scanner\<close> the offset
  \<open>off_center[[2,0,1]] * [-1,-1,0]\<close> added to the translation. An origin that is
  neither \<open>fov\<close> nor \<open>scanner\<close> falls through both branches.
\<close>

definition compose :: "mat3 \<Rightarrow> vec3 \<Rightarrow> info_dict \<Rightarrow> image_def list \<Rightarrow> real list \<Rightarrow> string
    \<Rightarrow> error + real list list" where
  "compose rot fov gi defs zs origin =
     bindE (get_voxel_size defs) (\<lambda>vs.
       case fov of
         Vec3 f0 f1 f2 \<Rightarrow>
           (let fov_center_offset =
                  mat_vec rot (Vec3 (vs ! 0 / 2 - f0 / 2) (vs ! 1 / 2 - f1 / 2) (vs ! 2 / 2 - f2 / 2))
            in bindE (case take 3 zs of
                        [z0, z1, z2] \<Rightarrow> Inr (mat_mul rot (diag z0 z1 z2))
                      | _ \<Rightarrow> Inl ValueError) (\<lambda>scaled.
                 if origin = ''fov'' then Inr (compose_aff scaled fov_center_offset)
                 else if origin = ''scanner''
                 then bindE (vec3_item gi ''off_center'') (\<lambda>off_center.
                        case off_center of
                          Vec3 ap fh rl \<Rightarrow>
                            (let iso_offset = Vec3 (rl * (- 1)) (ap * (- 1)) (fh * 0)
                             in Inr (compose_aff scaled (vec_add fov_center_offset iso_offset))))
                 else Inr (compose_aff scaled fov_center_offset))))"

definition get_affine ::
    "euler2mat \<Rightarrow> heap \<Rightarrow> addr \<Rightarrow> string \<Rightarrow> (error + real list list) \<times> heap" where
  "get_affine e2m h self origin =
     (case deref h self of
        Some (HeaderObj hdr) \<Rightarrow>
          (case (deref h (general_info hdr), deref h (image_defs hdr)) of
             (Some (DictObj gi), Some (ArrayObj defs)) \<Rightarrow>
               (case bindE (rotation e2m gi) (\<lambda>rot.
                     bindE (vec3_item gi ''fov'') (\<lambda>fov.
                     bindE (get_voxel_size defs) (\<lambda>voxsize. Inr (rot, fov)))) of
                  Inl e \<Rightarrow> (Inl e, h)
                | Inr (rot, fov) \<Rightarrow>
                    (case get_slice_orientation h self of
                       (Inl e, h') \<Rightarrow> (Inl e, h')
                     | (Inr orientation, h') \<Rightarrow>
                         (bindE (recfg_data_axis orientation fov) (\<lambda>(axis, fov').
                            compose (mat_mul rot axis) fov' gi defs (zooms (base hdr)) origin),
                          h')))
           | _ \<Rightarrow> (Inl TypeError, h))
      | _ \<Rightarrow> (Inl TypeError, h))"

subsection \<open>Volume grouping primitives\<close>

text \<open>
  Modelled from the spec: \<open>occurrence_index\<close> (the tests import it as \<open>vol_numbers\<close>) is
  not defined in parrec.py. Per position of the sequence of slice numbers it gives the
  count of prior occurrences of the value at that position.
\<close>

definition occurrence_index :: "int list \<Rightarrow> nat list" where
  "occurrence_index seq = map (\<lambda>i. count_list (take i seq) (seq ! i)) [0..<length seq]"

text \<open>
  Modelled from the spec: \<open>is_volume_full\<close> (the tests import it as \<open>vol_is_full\<close>) is
  not defined in parrec.py. It fails with a range error if any value of \<open>seq\<close> is
  strictly less than \<open>slice_min\<close>; otherwise it groups \<open>seq\<close> by \<open>occurrence_index\<close>
  and returns, per input position, whether the declared range
  \<open>{slice_min, \<dots>, slice_min + slice_count - 1}\<close> is contained in the values of that
  position's group.
\<close>

definition volume_group :: "int list \<Rightarrow> nat \<Rightarrow> int list" where
  "volume_group seq k = map fst (filter (\<lambda>p. snd p = k) (zip seq (occurrence_index seq)))"

definition is_volume_full :: "int list \<Rightarrow> int \<Rightarrow> int \<Rightarrow> error + bool list" where
  "is_volume_full seq slice_count slice_min =
     (if list_ex (\<lambda>v. v < slice_min) seq then Inl OutOfRangeSliceNumber
      else Inr (map (\<lambda>k. list_all (\<lambda>n. n \<in> set (volume_group seq k))
                                   [slice_min..slice_min + slice_count - 1])
                    (occurrence_index seq)))"

subsection \<open>Example data\<close>

text \<open>
  A small series: two dynamics of two transversal slices each, 16 bit pixels, 64 by 64
  in plane. \<open>phantom_info\<close> is its general information, with the given off-centre
  vector (ap, fh, rl).
\<close>

definition phantom_def :: "int \<Rightarrow> int \<Rightarrow> image_def" where
  "phantom_def sl dyn =
     \<lparr>slice_number = sl, dynamic_scan_number = dyn, image_pixel_size = 16,
      recon_resolution = [64, 64], rescale_intercept = 3, rescale_slope = 2,
      scale_slope = 4, image_angulation = [1, 2, 3], slice_thickness = 6, slice_gap = 2,
      slice_orientation = 1, pixel_spacing = [3, 3]\<rparr>"

definition phantom_defs :: "image_def list" where
  "phantom_defs = [phantom_def 1 1, phantom_def 2 1, phantom_def 1 2, phantom_def 2 2]"

definition phantom_info :: "vec3 \<Rightarrow> info_dict" where
  "phantom_info off_center = map_of
     [(''max_slices'', IntV 2), (''max_dynamics'', IntV 2), (''max_gradient_orient'', IntV 1),
      (''max_diffusion_values'', IntV 1), (''repetition_time'', FloatV 2000),
      (''angulation'', Vec3V (Vec3 0 0 0)), (''fov'', Vec3V (Vec3 192 16 192)),
      (''off_center'', Vec3V off_center)]"

text \<open>
  Instances of the two parameters for the examples: a base constructor that accepts its
  arguments and stores them, and a helper that returns the product of the elementary
  rotations about the first, second and third axis, which passes the \<open>assert\<close>.
\<close>

definition Header_init_plain :: header_init where
  "Header_init_plain dt sh zs = Inr \<lparr>data_dtype = dt, shape = sh, zooms = zs\<rparr>"

definition euler2mat_product :: euler2mat where
  "euler2mat_product z y x = mat_mul (mat_mul (rot_rl x) (rot_ap y)) (rot_fh z)"

text \<open>
  The heap after \<open>PARRECHeader(info, image_defs)\<close> on the example: the dictionary at
  address 0, the table at address 1, the header at address 2, with the given content of
  the orientation cache.
\<close>

definition phantom_header :: "string option \<Rightarrow> header" where
  "phantom_header cache =
     \<lparr>general_info = 0, image_defs = 1, u_slice_orientation = cache,
      default_scaling = ''dv'',
      base = \<lparr>data_dtype = Int16, shape = [64, 64, 2, 2], zooms = [3, 3, 8, 2]\<rparr>\<rparr>"

definition phantom_heap :: "vec3 \<Rightarrow> image_def list \<Rightarrow> string option \<Rightarrow> heap" where
  "phantom_heap off_center defs cache =
     [DictObj (phantom_info off_center), ArrayObj defs, HeaderObj (phantom_header cache)]"

section \<open>Properties\<close>

subsection \<open>Volume completeness\<close>

lemma occurrence_index_321: "occurrence_index [3, 2, 1] = [0, 0, 0]"
  by (simp add: occurrence_index_def upt_rec)

lemma occurrence_index_3201: "occurrence_index [3, 2, 0, 1] = [0, 0, 0, 0]"
  by (simp add: occurrence_index_def upt_rec)

lemma volume_group_321: "volume_group [3, 2, 1] 0 = [3, 2, 1]"
  by (simp add: volume_group_def occurrence_index_321)

lemma volume_group_3201: "volume_group [3, 2, 0, 1] 0 = [3, 2, 0, 1]"
  by (simp add: volume_group_def occurrence_index_3201)

text \<open>
  C1. \<open>is_volume_full seq slice_count slice_min\<close> (with \<open>slice_min = 1\<close> by default)
  raises the range error exactly when some value of \<open>seq\<close> is strictly less than
  \<open>slice_min\<close>; in particular a value above \<open>slice_min + slice_count - 1\<close> never makes
  it raise. On \<open>[3,2,1]\<close> with count 3 it returns \<open>[True,True,True]\<close>, with count 4
  \<open>[False,False,False]\<close>, on \<open>[3,2,0,1]\<close> with count 3 and \<open>slice_min = 0\<close> it returns
  \<open>[True,True,True,True]\<close>, and on \<open>[2,1,0]\<close> with count 2 it raises the range error.
\<close>

theorem is_volume_full_range_error:
  "((\<exists>e. is_volume_full seq slice_count slice_min = Inl e) \<longleftrightarrow> (\<exists>v \<in> set seq. v < slice_min))
   \<and> ((\<forall>v \<in> set seq. slice_min \<le> v) \<longrightarrow> (\<exists>bs. is_volume_full seq slice_count slice_min = Inr bs
          \<and> length bs = length seq))
   \<and> is_volume_full [3, 2, 1] 3 1 = Inr [True, True, True]
   \<and> is_volume_full [3, 2, 1] 4 1 = Inr [False, False, False]
   \<and> is_volume_full [3, 2, 0, 1] 3 0 = Inr [True, True, True, True]
   \<and> is_volume_full [2, 1, 0] 2 1 = Inl OutOfRangeSliceNumber"
proof -
  have raises: "(\<exists>e. is_volume_full seq slice_count slice_min = Inl e) \<longleftrightarrow> (\<exists>v \<in> set seq. v < slice_min)"
    by (force simp: is_volume_full_def list_ex_iff not_le)
  have returns: "(\<forall>v \<in> set seq. slice_min \<le> v) \<longrightarrow> (\<exists>bs. is_volume_full seq slice_count slice_min = Inr bs
          \<and> length bs = length seq)"
  proof
    assume "\<forall>v \<in> set seq. slice_min \<le> v"
    then have "\<not> list_ex (\<lambda>v. v < slice_min) seq"
      by (auto simp: list_ex_iff)
    then show "\<exists>bs. is_volume_full seq slice_count slice_min = Inr bs \<and> length bs = length seq"
      by (simp add: is_volume_full_def occurrence_index_def)
  qed
  have e1: "is_volume_full [3, 2, 1] 3 1 = Inr [True, True, True]"
    by (simp add: is_volume_full_def occurrence_index_321 volume_group_321 upto_rec1)
  have e2: "is_volume_full [3, 2, 1] 4 1 = Inr [False, False, False]"
    by (simp add: is_volume_full_def occurrence_index_321 volume_group_321 upto_rec1)
  have e3: "is_volume_full [3, 2, 0, 1] 3 0 = Inr [True, True, True, True]"
    by (simp add: is_volume_full_def occurrence_index_3201 volume_group_3201 upto_rec1)
  have e4: "is_volume_full [2, 1, 0] 2 1 = Inl OutOfRangeSliceNumber"
    by (simp add: is_volume_full_def)
  from raises returns e1 e2 e3 e4 show ?thesis by blast
qed

theorem is_volume_full_range_error_witness:
  "(\<exists>v \<in> set [5, 0, 7 :: int]. v < 1) \<and> (\<exists>e. is_volume_full [5, 0, 7] 3 1 = Inl e)
   \<and> list_all (\<lambda>v. 1 \<le> v) [9, 1, 2 :: int] \<and> (\<exists>bs. is_volume_full [9, 1, 2] 2 1 = Inr bs)"
proof -
  have low: "\<exists>v \<in> set [5, 0, 7 :: int]. v < 1" by simp
  have ok: "\<forall>v \<in> set [9, 1, 2 :: int]. 1 \<le> v" by simp
  from is_volume_full_range_error [of "[5, 0, 7]" 3 1] low
  have a: "\<exists>e. is_volume_full [5, 0, 7] 3 1 = Inl e" by blast
  from is_volume_full_range_error [of "[9, 1, 2]" 2 1] ok
  have b: "\<exists>bs. is_volume_full [9, 1, 2] 2 1 = Inr bs" by blast
  from low a b show ?thesis by simp
qed

subsection \<open>Unique values of a column\<close>

lemma length_unique: "length (unique xs) = card (set xs)"
  by (simp add: unique_def length_remdups_card_conv)

lemma set_unique: "set (unique xs) = set xs"
  by (simp add: unique_def)

lemma unique_single:
  assumes "set xs = {v}"
  shows "unique xs = [v]"
proof -
  have "length (unique xs) = 1"
    using assms by (simp add: length_unique)
  then obtain x where x: "unique xs = [x]"
    by (cases "unique xs") auto
  then have "set xs = {x}"
    using set_unique [of xs] by simp
  with assms x show ?thesis by simp
qed

lemma scalars_uniform:
  "set xs = {v} \<Longrightarrow> u_get_unique_image_prop name (Scalars xs) = Inr [v]"
  by (simp add: u_get_unique_image_prop_def bindE_def unique_single)

lemma scalars_varying:
  "card (set xs) \<noteq> 1 \<Longrightarrow>
     u_get_unique_image_prop name (Scalars xs) = Inl (PARRECError (Varying name))"
  by (simp add: u_get_unique_image_prop_def bindE_def length_unique)

lemma column_uniform:
  assumes "defs \<noteq> []" and "\<forall>d \<in> set defs. f d = v"
  shows "set (map f defs) = {v}"
  using assms by (cases defs) auto

lemma column_varying:
  assumes "d \<in> set defs" and "d' \<in> set defs" and "f d \<noteq> f d'"
  shows "card (set (map f defs)) \<noteq> 1"
proof
  assume "card (set (map f defs)) = 1"
  then obtain v where "set (map f defs) = {v}"
    by (auto simp: card_1_singleton_iff)
  with assms(1,2) have "f d = v" "f d' = v" by auto
  with assms(3) show False by simp
qed

subsection \<open>Scaling\<close>

text \<open>
  C5. For a header whose table gives the scale slope, the rescale slope and the rescale
  intercept one value each across all its records, \<open>get_data_scaling\<close> with method
  \<open>dv\<close> returns the rescale slope and the rescale intercept, and with method \<open>fp\<close> it
  returns \<open>1 / scale_slope\<close> and \<open>rescale_intercept / (rescale_slope * scale_slope)\<close>.
\<close>

theorem get_data_scaling_uniform:
  assumes "defs \<noteq> []"
    and "\<forall>d \<in> set defs. scale_slope d = ss \<and> rescale_slope d = rs \<and> rescale_intercept d = ri"
  shows "get_data_scaling defs ''dv'' = Inr ([rs], [ri]) \<and>
         get_data_scaling defs ''fp'' = Inr ([1 / ss], [ri / (rs * ss)])"
proof -
  have a: "u_get_unique_image_prop ''scale slope'' (Scalars (map scale_slope defs)) = Inr [ss]"
    using assms by (intro scalars_uniform column_uniform) auto
  have b: "u_get_unique_image_prop ''rescale slope'' (Scalars (map rescale_slope defs)) = Inr [rs]"
    using assms by (intro scalars_uniform column_uniform) auto
  have c: "u_get_unique_image_prop ''rescale intercept'' (Scalars (map rescale_intercept defs))
             = Inr [ri]"
    using assms by (intro scalars_uniform column_uniform) auto
  show ?thesis
    by (simp add: get_data_scaling_def a b c bindE_def)
qed

theorem get_data_scaling_uniform_witness:
  "phantom_defs \<noteq> [] \<and> list_all (\<lambda>d. scale_slope d = 4 \<and> rescale_slope d = 2 \<and>
      rescale_intercept d = 3) phantom_defs \<and>
   get_data_scaling phantom_defs ''dv'' = Inr ([2], [3]) \<and>
   get_data_scaling phantom_defs ''fp'' = Inr ([1 / 4], [3 / (2 * 4)])"
proof -
  have ne: "phantom_defs \<noteq> []"
    by (simp add: phantom_defs_def)
  have un: "\<forall>d \<in> set phantom_defs. scale_slope d = 4 \<and> rescale_slope d = 2 \<and>
      rescale_intercept d = 3"
    by (simp add: phantom_defs_def phantom_def_def)
  from get_data_scaling_uniform [OF ne un] ne un show ?thesis
    by (simp add: list_all_iff)
qed

text \<open>
  Whenever two records of the table differ in the scale slope, the rescale slope or the
  rescale intercept, \<open>get_data_scaling\<close> raises the "Varying" error, whatever the
  method.
\<close>

lemma get_data_scaling_varying:
  assumes "d \<in> set defs" and "d' \<in> set defs"
    and "scale_slope d \<noteq> scale_slope d' \<or> rescale_slope d \<noteq> rescale_slope d'
         \<or> rescale_intercept d \<noteq> rescale_intercept d'"
  shows "\<exists>name. get_data_scaling defs method = Inl (PARRECError (Varying name))"
proof -
  let ?q = "\<lambda>name f. u_get_unique_image_prop name (Scalars (map f defs))"
  have res: "\<And>name f. ?q name f = Inl (PARRECError (Varying name)) \<or> (\<exists>v. ?q name f = Inr [v])"
    by (simp add: u_get_unique_image_prop_def bindE_def)
  have var: "\<And>name f. f d \<noteq> f d' \<Longrightarrow> ?q name f = Inl (PARRECError (Varying name))"
    using assms(1,2) by (intro scalars_varying column_varying)
  from assms(3) res [of "''scale slope''" scale_slope] res [of "''rescale slope''" rescale_slope]
    var [of scale_slope "''scale slope''"] var [of rescale_slope  "''rescale slope''"]
    var [of rescale_intercept  "''rescale intercept''"]
  show ?thesis
    by (auto simp: get_data_scaling_def bindE_def)
qed

text \<open>
  C6. On a table of two records whose rescale slopes are 2 and 5, \<open>get_data_scaling\<close>
  raises the error "Varying rescale slope in image sequence. This is not supported" for
  the method \<open>dv\<close> and for the method \<open>fp\<close>: it returns no per-slice slope and
  intercept.
\<close>

theorem varying_scaling_rejected:
  "get_data_scaling [phantom_def 1 1, (phantom_def 2 1)\<lparr>rescale_slope := 5\<rparr>] ''dv''
      = Inl (PARRECError (Varying ''rescale slope''))
   \<and> get_data_scaling [phantom_def 1 1, (phantom_def 2 1)\<lparr>rescale_slope := 5\<rparr>] ''fp''
      = Inl (PARRECError (Varying ''rescale slope''))"
  by (simp add: get_data_scaling_def u_get_unique_image_prop_def unique_def bindE_def
      phantom_def_def)

subsection \<open>The heap\<close>




subsection \<open>The example series\<close>

lemma phantom_derefs:
  "deref (phantom_heap oc defs c) 0 = Some (DictObj (phantom_info oc))"
  "deref (phantom_heap oc defs c) (Suc 0) = Some (ArrayObj defs)"
  "deref (phantom_heap oc defs c) 2 = Some (HeaderObj (phantom_header c))"
  by (simp_all add: deref_def phantom_heap_def)

lemma phantom_items:
  "vec3_item (phantom_info oc) ''fov'' = Inr (Vec3 192 16 192)"
  "vec3_item (phantom_info oc) ''off_center'' = Inr oc"
  by (simp_all add: vec3_item_def phantom_info_def)

lemma phantom_fields:
  "general_info (phantom_header c) = 0"
  "image_defs (phantom_header c) = Suc 0"
  "u_slice_orientation (phantom_header c) = c"
  "zooms (base (phantom_header c)) = [3, 3, 8, 2]"
  by (simp_all add: phantom_header_def)

lemma phantom_store_cache:
  "store (phantom_heap oc defs None) 2
     (HeaderObj ((phantom_header None)\<lparr>u_slice_orientation := Some l\<rparr>))
     = phantom_heap oc defs (Some l)"
  by (simp add: store_def phantom_heap_def phantom_header_def)


lemmas init_args_eval = init_args_def phantom_info_def u_get_unique_image_prop_def bindE_def
  unique_def typeDict_def str_def str_nat.simps get_data_shape_in_file_def u_get_zooms_def
  get_ndim_def get_voxel_size_def int_item_def float_item_def

lemma phantom_init_args:
  "init_args (phantom_info oc) phantom_defs = Inr (Int16, [64, 64, 2, 2], [3, 3, 8, 2])"
  by (simp add: init_args_eval phantom_defs_def phantom_def_def)

lemma phantom_truncated_init_args:
  "init_args (phantom_info oc) (butlast phantom_defs) = Inr (Int16, [64, 64, 2, 2], [3, 3, 8, 2])"
  by (simp add: init_args_eval phantom_defs_def phantom_def_def)

lemma phantom_rotation:
  "rotation euler2mat_product (phantom_info oc)
     = Inr (Mat3 (Vec3 1 0 0) (Vec3 0 1 0) (Vec3 0 0 1))"
  by (simp add: rotation_def vec3_item_def phantom_info_def bindE_def rot_rl_def rot_ap_def
      rot_fh_def euler2mat_product_def)

lemma phantom_voxel_size: "get_voxel_size phantom_defs = Inr [3, 3, 6]"
  by (simp add: get_voxel_size_def u_get_unique_image_prop_def unique_def bindE_def
      phantom_defs_def phantom_def_def)

lemma phantom_orientation_code:
  "u_get_unique_image_prop ''slice orientation'' (Scalars (map slice_orientation phantom_defs))
     = Inr [1]"
  by (simp add: u_get_unique_image_prop_def unique_def bindE_def phantom_defs_def phantom_def_def)

lemma phantom_orientation_first:
  "get_slice_orientation (phantom_heap oc phantom_defs None) 2
     = (Inr ''transversal'', phantom_heap oc phantom_defs (Some ''transversal''))"
  by (simp add: get_slice_orientation_def phantom_derefs phantom_fields
      phantom_orientation_code bindE_def slice_orientation_codes_label_def phantom_store_cache)


lemma phantom_affine_fov:
  "get_affine euler2mat_product (phantom_heap oc phantom_defs None) 2 ''fov'' =
    (Inr [[- 3, 0, 0, 189 / 2], [0, - 3, 0, 189 / 2], [0, 0, 8, - 5], [0, 0, 0, 1]],
     phantom_heap oc phantom_defs (Some ''transversal''))"
  by (simp add: get_affine_def phantom_derefs phantom_fields phantom_rotation phantom_voxel_size
      phantom_orientation_first phantom_items bindE_def recfg_data_axis_def compose_def diag_def)

lemma phantom_affine_scanner:
  "get_affine euler2mat_product (phantom_heap (Vec3 ap fh rl) phantom_defs None) 2 ''scanner'' =
    (Inr [[- 3, 0, 0, 189 / 2 - rl], [0, - 3, 0, 189 / 2 - ap], [0, 0, 8, - 5], [0, 0, 0, 1]],
     phantom_heap (Vec3 ap fh rl) phantom_defs (Some ''transversal''))"
  by (simp add: get_affine_def phantom_derefs phantom_fields phantom_rotation phantom_voxel_size
      phantom_orientation_first phantom_items bindE_def recfg_data_axis_def compose_def diag_def)


subsection \<open>Construction\<close>

text \<open>
  C2. The example series without the final record of its last volume. The constructor
  raises nothing: it computes the same dtype, shape and zooms as for the complete table,
  and returns a header whose shape still counts two volumes. (Its parameters are the
  dictionary, the table and the default scaling; there is no flag to permit truncation.)
\<close>

theorem truncated_table_accepted:
  "init_args (phantom_info (Vec3 0 0 0)) (butlast phantom_defs)
     = Inr (Int16, [64, 64, 2, 2], [3, 3, 8, 2])
   \<and> init_args (phantom_info (Vec3 0 0 0)) (butlast phantom_defs)
     = init_args (phantom_info (Vec3 0 0 0)) phantom_defs
   \<and> PARRECHeader Header_init_plain
        [DictObj (phantom_info (Vec3 0 0 0)), ArrayObj (butlast phantom_defs)] 0 1 ''dv''
     = Inr (2, phantom_heap (Vec3 0 0 0) (butlast phantom_defs) None)"
  by (simp add: phantom_init_args phantom_truncated_init_args PARRECHeader_def deref_def
      bindE_def Header_init_plain_def new_def phantom_heap_def phantom_header_def)

text \<open>
  C8. The example series with an image pixel size of 32 in every record: the constructor
  computes its arguments without error, with the dtype \<open>int32\<close>. With 24 the lookup of
  \<open>int24\<close> raises KeyError.
\<close>

theorem pixel_size_32_accepted:
  "init_args (phantom_info (Vec3 0 0 0)) (map (\<lambda>d. d\<lparr>image_pixel_size := 32\<rparr>) phantom_defs)
     = Inr (Int32, [64, 64, 2, 2], [3, 3, 8, 2])
   \<and> init_args (phantom_info (Vec3 0 0 0)) (map (\<lambda>d. d\<lparr>image_pixel_size := 24\<rparr>) phantom_defs)
     = Inl (KeyError ''int24'')"
  by (simp add: init_args_eval phantom_defs_def phantom_def_def)

subsection \<open>Unique values of an array field\<close>

text \<open>
  C7. Every record of the example series holds the image angulation \<open>[1, 2, 3]\<close>, and
  the query for the image angulation raises the "Varying" error: the code takes the
  unique elements of the first two rows of the column, not the unique rows. On a table
  of one record the same query raises IndexError, and on a table whose records all hold
  \<open>[0, 0, 0]\<close> it returns the two-element array \<open>[0, 0]\<close>.
\<close>

theorem identical_array_field_rejected:
  "list_all (\<lambda>d. image_angulation d = [1, 2, 3]) phantom_defs
   \<and> u_get_unique_image_prop ''image angulation'' (Arrays (map image_angulation phantom_defs))
       = Inl (PARRECError (Varying ''image angulation''))
   \<and> u_get_unique_image_prop ''image angulation''
        (Arrays (map image_angulation [phantom_def 1 1])) = Inl IndexError
   \<and> u_get_unique_image_prop ''image angulation''
        (Arrays [[0, 0, 0], [0, 0, 0], [0, 0, 0 :: real]]) = Inr [0, 0]"
  by (simp add: u_get_unique_image_prop_def unique_def bindE_def phantom_defs_def phantom_def_def)

subsection \<open>The origin of the affine\<close>

lemma compose_fh_ignored:
  "compose rot fov (gi(''off_center'' \<mapsto> Vec3V (Vec3 ap fh rl))) defs zs ''scanner''
     = compose rot fov (gi(''off_center'' \<mapsto> Vec3V (Vec3 ap 0 rl))) defs zs ''scanner''"
  by (simp add: compose_def vec3_item_def bindE_def Let_def
      split: sum.splits vec3.splits list.splits)

text \<open>
  C4. On the example series with the off-centre vector (ap, fh, rl) = (0, 5, 0) the
  affine for the origin \<open>scanner\<close> is the affine for the origin \<open>fov\<close>: the FH
  component is multiplied by 0. For any off-centre vector the translation of the example
  is \<open>(94.5 - rl, 94.5 - ap, -5)\<close>, and for every header the composition gives the same
  result whatever the FH component is.
\<close>

theorem off_center_fh_ignored:
  "get_affine euler2mat_product (phantom_heap (Vec3 0 5 0) phantom_defs None) 2 ''scanner''
     = get_affine euler2mat_product (phantom_heap (Vec3 0 5 0) phantom_defs None) 2 ''fov''
   \<and> fst (get_affine euler2mat_product (phantom_heap (Vec3 0 5 0) phantom_defs None) 2 ''scanner'')
     = Inr [[- 3, 0, 0, 189 / 2], [0, - 3, 0, 189 / 2], [0, 0, 8, - 5], [0, 0, 0, 1]]
   \<and> fst (get_affine euler2mat_product (phantom_heap (Vec3 ap fh rl) phantom_defs None) 2
            ''scanner'')
     = Inr [[- 3, 0, 0, 189 / 2 - rl], [0, - 3, 0, 189 / 2 - ap], [0, 0, 8, - 5], [0, 0, 0, 1]]
   \<and> compose rot fov (gi(''off_center'' \<mapsto> Vec3V (Vec3 ap fh rl))) defs zs ''scanner''
     = compose rot fov (gi(''off_center'' \<mapsto> Vec3V (Vec3 ap 0 rl))) defs zs ''scanner''"
  using compose_fh_ignored [of rot fov gi ap fh rl defs zs]
  by (simp add: phantom_affine_fov phantom_affine_scanner)

subsection \<open>What a header remembers\<close>















subsection \<open>Copies\<close>






end
